theory Spec2Isabelle
  imports Complex_Main "HOL-Library.Word"
begin

section \<open>Go values used by the scanner service\<close>

text \<open>
  A Go \<open>error\<close> is the sentinel \<open>io.EOF\<close> or carries a message. \<open>Error_string\<close> is what
  \<open>%v\<close> prints for it.
\<close>

datatype error = EOF | Err string

fun Error_string :: "error \<Rightarrow> string" where
  "Error_string EOF = ''EOF''"
| "Error_string (Err m) = m"

text \<open>
  The value \<open>encoding/json\<close> decodes into \<open>interface{}\<close>: \<open>nil\<close>, \<open>bool\<close>, \<open>float64\<close>,
  \<open>string\<close>, \<open>[]interface{}\<close> and \<open>map[string]interface{}\<close>. A decoded number is a finite
  \<open>float64\<close>, held here by its exact rational value (the code only compares it with 0).
  A map is an association list read with \<open>map_of\<close>; a missing key reads as \<open>None\<close>, which
  fails every type assertion just as Go's \<open>nil\<close> does.
\<close>

datatype json =
    JNull
  | JBool bool
  | JNumber rat
  | JString string
  | JArray "json list"
  | JObject "(string \<times> json) list"

type_synonym json_map = "(string \<times> json) list"

subsection \<open>\<open>scanner.go\<close>: response structs\<close>

record ScanResponse =
  IsSafe :: bool
  Message :: string
  ScanID :: string
  Detections :: string
  Tags :: "string list"

record HealthResponse =
  Status :: string
  Timestamp :: string
  CustomTags :: "string list"
  APIEndpoint :: string

subsection \<open>The SDK client\<close>

text \<open>
  \<open>amaasclient.AmaasClient\<close> belongs to the Trend Micro SDK, an external dependency. The
  service touches five of its option flags, through setters that take no argument. Each
  setter is modelled by what its name says: it writes its own flag and no other.
\<close>

record AmaasClient =
  digest :: bool
  pml :: bool
  feedback :: bool
  verbose :: bool
  activeContent :: bool

definition SetDigestDisable :: "AmaasClient \<Rightarrow> AmaasClient" where
  "SetDigestDisable c = c\<lparr>digest := False\<rparr>"

definition SetPMLEnable :: "AmaasClient \<Rightarrow> AmaasClient" where
  "SetPMLEnable c = c\<lparr>pml := True\<rparr>"

definition SetFeedbackEnable :: "AmaasClient \<Rightarrow> AmaasClient" where
  "SetFeedbackEnable c = c\<lparr>feedback := True\<rparr>"

definition SetVerboseEnable :: "AmaasClient \<Rightarrow> AmaasClient" where
  "SetVerboseEnable c = c\<lparr>verbose := True\<rparr>"

definition SetActiveContentEnable :: "AmaasClient \<Rightarrow> AmaasClient" where
  "SetActiveContentEnable c = c\<lparr>activeContent := True\<rparr>"

subsection \<open>What the handlers receive from outside the repository\<close>

text \<open>
  \<open>textproto.CanonicalMIMEHeaderKey\<close>, through which \<open>Header.Get\<close> passes the name it is
  asked for. A name made of header-token bytes only (letters, digits and the punctuation
  listed) gets its first letter and every letter after a hyphen in upper case and every
  other letter in lower case; a name with any other byte is returned as it is.
\<close>

definition validHeaderFieldByte :: "char \<Rightarrow> bool" where
  "validHeaderFieldByte c \<longleftrightarrow>
     c \<in> set (''abcdefghijklmnopqrstuvwxyzABCDEFGHIJKLMNOPQRSTUVWXYZ0123456789''
              @ ''!#$%&*+-.^_|~'' @ [CHR 0x27, CHR 0x60])"

definition to_upper :: "char \<Rightarrow> char" where
  "to_upper c =
     (case map_of (zip ''abcdefghijklmnopqrstuvwxyz'' ''ABCDEFGHIJKLMNOPQRSTUVWXYZ'') c of
        None \<Rightarrow> c | Some u \<Rightarrow> u)"

definition to_lower :: "char \<Rightarrow> char" where
  "to_lower c =
     (case map_of (zip ''ABCDEFGHIJKLMNOPQRSTUVWXYZ'' ''abcdefghijklmnopqrstuvwxyz'') c of
        None \<Rightarrow> c | Some l \<Rightarrow> l)"

fun canonical_case :: "bool \<Rightarrow> string \<Rightarrow> string" where
  "canonical_case upper [] = []"
| "canonical_case upper (c # cs) =
     (let c' = (if upper then to_upper c else to_lower c)
      in c' # canonical_case (c' = CHR ''-'') cs)"

definition CanonicalMIMEHeaderKey :: "string \<Rightarrow> string" where
  "CanonicalMIMEHeaderKey s =
     (if list_all validHeaderFieldByte s then canonical_case True s else s)"

text \<open>
  An HTTP request: its method, its headers and what \<open>io.ReadAll(r.Body)\<close> gives. The
  header map is held as \<open>net/http\<close> holds it: under the canonical form of each name, the
  list of the values received for it. \<open>Header_Get\<close> is \<open>r.Header.Get\<close>: it looks up the
  canonical form of the name it is given and returns the first value, or the empty
  string when there is none.
\<close>

record Request =
  Method :: string
  Header :: "(string \<times> string list) list"
  Body :: "error + string"

definition Header_Get :: "Request \<Rightarrow> string \<Rightarrow> string" where
  "Header_Get r k =
     (case map_of (Header r) (CanonicalMIMEHeaderKey k) of
        None \<Rightarrow> []
      | Some [] \<Rightarrow> []
      | Some (v # vs) \<Rightarrow> v)"

text \<open>
  The standard library and the scanning backend are parameters of the model:
  \<open>Clock\<close> is \<open>time.Now().Format(layout)\<close>, \<open>Unmarshal\<close> is \<open>json.Unmarshal\<close> into a
  \<open>map[string]interface{}\<close>, \<open>Ext\<close> and \<open>Base\<close> are \<open>filepath.Ext\<close> and \<open>filepath.Base\<close>,
  \<open>ScanFile\<close> and \<open>ScanBuffer\<close> are the SDK calls (they see the client's flags), and
  \<open>Encode\<close> is \<open>json.NewEncoder(w).Encode\<close>, whose only result of interest is its error.
  The clock does not move within the model; no property below depends on the time.
\<close>

record platform =
  Clock :: "string \<Rightarrow> string"
  Unmarshal :: "string \<Rightarrow> error + json_map"
  Ext :: "string \<Rightarrow> string"
  Base :: "string \<Rightarrow> string"
  ScanFile :: "AmaasClient \<Rightarrow> string \<Rightarrow> string list \<Rightarrow> error + string"
  ScanBuffer :: "AmaasClient \<Rightarrow> string \<Rightarrow> string \<Rightarrow> string list \<Rightarrow> error + string"
  Encode :: "ScanResponse \<Rightarrow> error option"

text \<open>What a handler writes: \<open>http.Error\<close> with a status and a text, or a JSON body.\<close>

datatype 'a reply = HttpError nat string | Json nat 'a

section \<open>\<open>scanner.go\<close>: the health endpoint\<close>

definition RFC3339 :: string where
  "RFC3339 = ''2006-01-02T15:04:05Z07:00''"

text \<open>
  The handler closes over \<open>client\<close>, a pointer that may be \<open>nil\<close> (\<open>None\<close>), the custom
  tags and the endpoint string that \<open>main\<close> chose.
\<close>

definition health_handler ::
  "platform \<Rightarrow> AmaasClient option \<Rightarrow> string list \<Rightarrow> string \<Rightarrow> HealthResponse reply" where
  "health_handler env client customTags endpoint =
     (let status = (if client = None then ''unhealthy'' else ''healthy'');
          response = \<lparr>Status = status, Timestamp = Clock env RFC3339,
                      CustomTags = customTags, APIEndpoint = endpoint\<rparr>
      in if status = ''healthy'' then Json 200 response else Json 503 response)"

section \<open>\<open>scanner.go\<close>: the scan endpoint\<close>

subsection \<open>Scan options and tags (lines 127 to 189)\<close>

text \<open>
  The five option headers are read in the source's order. Only the listed header values
  call a setter; nothing else touches the client, which is shared by all requests.
\<close>

definition apply_toggles :: "Request \<Rightarrow> AmaasClient \<Rightarrow> AmaasClient" where
  "apply_toggles r client =
     (let c1 = (if Header_Get r ''X-Digest-Enabled'' = ''false''
                then SetDigestDisable client else client);
          c2 = (if Header_Get r ''X-PML-Enabled'' = ''true'' then SetPMLEnable c1 else c1);
          c3 = (if Header_Get r ''X-SPN-Feedback-Enabled'' = ''true''
                then SetFeedbackEnable c2 else c2);
          c4 = (if Header_Get r ''X-Verbose-Enabled'' = ''true''
                then SetVerboseEnable c3 else c3);
          c5 = (if Header_Get r ''X-Active-Content-Enabled'' = ''true''
                then SetActiveContentEnable c4 else c4)
      in c5)"

definition request_filename :: "Request \<Rightarrow> string" where
  "request_filename r =
     (let filename = Header_Get r ''X-Filename''
      in if filename = [] then ''unknown'' else filename)"

definition request_scanMethod :: "Request \<Rightarrow> string" where
  "request_scanMethod r =
     (let scanMethod = Header_Get r ''X-Scan-Method''
      in if scanMethod = [] then ''buffer'' else scanMethod)"

definition scan_identifier :: "platform \<Rightarrow> Request \<Rightarrow> string" where
  "scan_identifier env r = Clock env ''20060102150405'' @ ''-'' @ Base env (request_filename r)"

definition initial_tags :: "platform \<Rightarrow> string list \<Rightarrow> Request \<Rightarrow> string list" where
  "initial_tags env customTags r =
     [''app=finguard'',
      ''file_type='' @ Ext env (request_filename r),
      ''scan_method='' @ request_scanMethod r,
      ''ml_enabled='' @ Header_Get r ''X-PML-Enabled'',
      ''spn_feedback='' @ Header_Get r ''X-SPN-Feedback-Enabled'',
      ''active_content='' @ Header_Get r ''X-Active-Content-Enabled''] @ customTags"

subsection \<open>The backend call (lines 191 to 225)\<close>

text \<open>
  A call of the SDK, with the client as it is at the call: \<open>ScanFile(filePath, tags)\<close> or
  \<open>ScanBuffer(data, identifier, tags)\<close>.
\<close>

datatype sdk_scan =
    ScanFileCall AmaasClient string "string list"
  | ScanBufferCall AmaasClient string string "string list"

fun run_scan :: "platform \<Rightarrow> sdk_scan \<Rightarrow> error + string" where
  "run_scan env (ScanFileCall c filePath tags) = ScanFile env c filePath tags"
| "run_scan env (ScanBufferCall c data identifier tags) = ScanBuffer env c data identifier tags"

fun call_tags :: "sdk_scan \<Rightarrow> string list" where
  "call_tags (ScanFileCall c filePath tags) = tags"
| "call_tags (ScanBufferCall c data identifier tags) = tags"

fun call_client :: "sdk_scan \<Rightarrow> AmaasClient" where
  "call_client (ScanFileCall c filePath tags) = c"
| "call_client (ScanBufferCall c data identifier tags) = c"

text \<open>
  The method choice: the file method needs the header value \<open>file\<close> and a path; every
  other request is scanned from its body, and a body that cannot be read is answered 400
  before any backend call.
\<close>

definition choose_scan ::
  "platform \<Rightarrow> AmaasClient \<Rightarrow> string list \<Rightarrow> Request \<Rightarrow> ScanResponse reply + sdk_scan" where
  "choose_scan env client customTags r =
     (let filePath = Header_Get r ''X-File-Path'';
          tags = initial_tags env customTags r
      in if request_scanMethod r = ''file'' \<and> filePath \<noteq> []
         then Inr (ScanFileCall client filePath tags)
         else (case Body r of
                 Inl readErr \<Rightarrow> Inl (HttpError 400 ''Failed to read request body'')
               | Inr data \<Rightarrow> Inr (ScanBufferCall client data (scan_identifier env r) tags)))"

subsection \<open>Reading the scan result (lines 227 to 273)\<close>

text \<open>
  The two loops over malware records differ only in the key they read (\<open>name\<close> under
  \<open>result.atse.malware\<close>, \<open>malwareName\<close> under \<open>foundMalwares\<close>): a record that is an
  object with a string under that key appends one tag, any other element is skipped.
\<close>

fun append_names :: "string \<Rightarrow> json list \<Rightarrow> string list \<Rightarrow> string list" where
  "append_names k [] tags = tags"
| "append_names k (malware # rest) tags =
     append_names k rest
       (case malware of
          JObject malwareMap \<Rightarrow>
            (case map_of malwareMap k of
               Some (JString malwareName) \<Rightarrow> tags @ [''malware_name='' @ malwareName]
             | _ \<Rightarrow> tags)
        | _ \<Rightarrow> tags)"

text \<open>The state of the block is the pair \<open>(isSafe, tags)\<close>.\<close>

definition check_atse :: "json_map \<Rightarrow> bool \<times> string list \<Rightarrow> bool \<times> string list" where
  "check_atse scanData st =
     (case map_of scanData ''result'' of
        Some (JObject result) \<Rightarrow>
          (case map_of result ''atse'' of
             Some (JObject atse) \<Rightarrow>
               (let isSafe = (case map_of atse ''malwareCount'' of
                                Some (JNumber malwareCount) \<Rightarrow>
                                  (if malwareCount > 0 then False else fst st)
                              | _ \<Rightarrow> fst st);
                    tags = (case map_of atse ''malware'' of
                              Some (JArray malwares) \<Rightarrow> append_names ''name'' malwares (snd st)
                            | _ \<Rightarrow> snd st)
                in (isSafe, tags))
           | _ \<Rightarrow> st)
      | _ \<Rightarrow> st)"

definition check_foundMalwares :: "json_map \<Rightarrow> bool \<times> string list \<Rightarrow> bool \<times> string list" where
  "check_foundMalwares scanData st =
     (case map_of scanData ''foundMalwares'' of
        Some (JArray foundMalwares) \<Rightarrow>
          (if length foundMalwares > 0
           then (False, append_names ''malwareName'' foundMalwares (snd st))
           else st)
      | _ \<Rightarrow> st)"

definition parse_scan_result :: "platform \<Rightarrow> string \<Rightarrow> string list \<Rightarrow> bool \<times> string list" where
  "parse_scan_result env scanResult tags =
     (case Unmarshal env scanResult of
        Inl err \<Rightarrow> (True, tags)
      | Inr scanData \<Rightarrow> check_foundMalwares scanData (check_atse scanData (True, tags)))"

subsection \<open>The handler\<close>

text \<open>
  The handler returns the shared client as it leaves it, the backend calls it made (none
  or one) and its reply. Log lines are not part of the model.
\<close>

definition build_response :: "platform \<Rightarrow> Request \<Rightarrow> string list \<Rightarrow> string \<Rightarrow> ScanResponse" where
  "build_response env r tags scanResult =
     (let (isSafe, tags') = parse_scan_result env scanResult tags
      in \<lparr>IsSafe = isSafe, Message = scanResult, ScanID = scan_identifier env r,
          Detections = scanResult, Tags = tags'\<rparr>)"

definition scan_handler ::
  "platform \<Rightarrow> AmaasClient \<Rightarrow> string list \<Rightarrow> Request
     \<Rightarrow> AmaasClient \<times> sdk_scan list \<times> ScanResponse reply" where
  "scan_handler env client customTags r =
     (if Method r \<noteq> ''POST'' then (client, [], HttpError 405 ''Method not allowed'')
      else
        let client' = apply_toggles r client
        in case choose_scan env client' customTags r of
             Inl early \<Rightarrow> (client', [], early)
           | Inr call \<Rightarrow>
               (case run_scan env call of
                  Inl err \<Rightarrow> (client', [call], HttpError 500 ''Scanning failed'')
                | Inr scanResult \<Rightarrow>
                    (let response = build_response env r (call_tags call) scanResult
                     in case Encode env response of
                          Some err \<Rightarrow> (client', [call], HttpError 500 ''Error encoding response'')
                        | None \<Rightarrow> (client', [call], Json 200 response))))"

section \<open>The scan result in the words of the specification\<close>

text \<open>
  These definitions follow the specification, not the code: the string under key \<open>k\<close>
  of a malware record, the \<open>result.atse\<close> object of a payload, when the verbose path and
  the legacy path fire, and the names each of them holds.
\<close>

fun record_name :: "string \<Rightarrow> json \<Rightarrow> string list" where
  "record_name k (JObject m) = (case map_of m k of Some (JString n) \<Rightarrow> [n] | _ \<Rightarrow> [])"
| "record_name k _ = []"

definition record_names :: "string \<Rightarrow> json list \<Rightarrow> string list" where
  "record_names k ms = concat (map (record_name k) ms)"

definition atse_of :: "json_map \<Rightarrow> json_map option" where
  "atse_of scanData =
     (case map_of scanData ''result'' of
        Some (JObject result) \<Rightarrow>
          (case map_of result ''atse'' of Some (JObject atse) \<Rightarrow> Some atse | _ \<Rightarrow> None)
      | _ \<Rightarrow> None)"

definition verbose_fires :: "json_map \<Rightarrow> bool" where
  "verbose_fires scanData =
     (case atse_of scanData of
        Some atse \<Rightarrow> (case map_of atse ''malwareCount'' of Some (JNumber n) \<Rightarrow> n > 0 | _ \<Rightarrow> False)
      | None \<Rightarrow> False)"

definition nested_names :: "json_map \<Rightarrow> string list" where
  "nested_names scanData =
     (case atse_of scanData of
        Some atse \<Rightarrow> (case map_of atse ''malware'' of
                        Some (JArray ms) \<Rightarrow> record_names ''name'' ms | _ \<Rightarrow> [])
      | None \<Rightarrow> [])"

definition legacy_list :: "json_map \<Rightarrow> json list" where
  "legacy_list scanData =
     (case map_of scanData ''foundMalwares'' of Some (JArray ms) \<Rightarrow> ms | _ \<Rightarrow> [])"

definition legacy_fires :: "json_map \<Rightarrow> bool" where
  "legacy_fires scanData = (legacy_list scanData \<noteq> [])"

definition legacy_names :: "json_map \<Rightarrow> string list" where
  "legacy_names scanData = record_names ''malwareName'' (legacy_list scanData)"

definition name_tags :: "string list \<Rightarrow> string list" where
  "name_tags names = map (\<lambda>n. ''malware_name='' @ n) names"

text \<open>
  The order on client states under which flags are never taken back: what is enabled
  in \<open>c\<close> is enabled in \<open>c'\<close>, and digest is on in \<open>c'\<close> only if it was on in \<open>c\<close>.
\<close>

definition never_reset :: "AmaasClient \<Rightarrow> AmaasClient \<Rightarrow> bool" where
  "never_reset c c' \<longleftrightarrow>
     (pml c \<longrightarrow> pml c') \<and> (feedback c \<longrightarrow> feedback c') \<and> (verbose c \<longrightarrow> verbose c') \<and>
     (activeContent c \<longrightarrow> activeContent c') \<and> (digest c' \<longrightarrow> digest c)"

section \<open>A concrete platform for the examples\<close>

text \<open>
  \<open>filepath.Ext\<close> and \<open>filepath.Base\<close> as the Go library computes them with \<open>/\<close> as
  separator: the extension is the suffix from the last dot of the last path element, the
  base is the last element once trailing slashes are gone.
\<close>

fun ext_scan :: "string \<Rightarrow> string \<Rightarrow> string" where
  "ext_scan [] suffix = []"
| "ext_scan (c # before) suffix =
     (if c = CHR ''/'' then [] else if c = CHR ''.'' then c # suffix
      else ext_scan before (c # suffix))"

definition filepath_Ext :: "string \<Rightarrow> string" where
  "filepath_Ext path = ext_scan (rev path) []"

definition filepath_Base :: "string \<Rightarrow> string" where
  "filepath_Base path =
     (if path = [] then ''.''
      else let stripped = rev (dropWhile (\<lambda>c. c = CHR ''/'') (rev path));
               element = rev (takeWhile (\<lambda>c. c \<noteq> CHR ''/'') (rev stripped))
           in if element = [] then ''/'' else element)"

text \<open>
  Four backend answers: a verbose payload whose count is 0 although a malware record is
  listed, a payload in which both paths report malware, a clean legacy payload, and an
  HTML error page. Each payload comes with the map that decoding it gives.
\<close>

definition zero_count_payload :: string where
  \<open>zero_count_payload = ''{"result":{"atse":{"malwareCount":0,"malware":[{"name":"EICAR"}]}}}''\<close>

definition zero_count_map :: json_map where
  "zero_count_map =
     [(''result'', JObject [(''atse'', JObject
        [(''malwareCount'', JNumber 0),
         (''malware'', JArray [JObject [(''name'', JString ''EICAR'')]])])])]"

definition both_paths_payload :: string where
  \<open>both_paths_payload = ''{"result":{"atse":{"malwareCount":1,"malware":[{"name":"Eicar_test_file"}]}},"foundMalwares":[{"malwareName":"TROJ_X"}]}''\<close>

definition both_paths_map :: json_map where
  "both_paths_map =
     [(''result'', JObject [(''atse'', JObject
        [(''malwareCount'', JNumber 1),
         (''malware'', JArray [JObject [(''name'', JString ''Eicar_test_file'')]])])]),
      (''foundMalwares'', JArray [JObject [(''malwareName'', JString ''TROJ_X'')]])]"

definition clean_payload :: string where
  \<open>clean_payload = ''{"scanResult":0,"foundMalwares":[]}''\<close>

definition clean_map :: json_map where
  "clean_map = [(''scanResult'', JNumber 0), (''foundMalwares'', JArray [])]"

definition gateway_page :: string where
  "gateway_page = ''<html>502 Bad Gateway</html>''"

text \<open>
  A decoder for the examples: it gives what \<open>json.Unmarshal\<close> gives on the three
  payloads above, and the error of a text that is not JSON on anything else (the only
  other text decoded below is \<open>gateway_page\<close>).
\<close>

definition demo_Unmarshal :: "string \<Rightarrow> error + json_map" where
  "demo_Unmarshal s =
     (if s = zero_count_payload then Inr zero_count_map
      else if s = both_paths_payload then Inr both_paths_map
      else if s = clean_payload then Inr clean_map
      else Inl (Err ''invalid character''))"

text \<open>
  The platform of the examples: a fixed clock, a backend that has no files and answers a
  buffer scan with the buffer itself (so a request chooses the answer it gets), and an
  encoder that never fails.
\<close>

definition demo_platform :: platform where
  "demo_platform =
     \<lparr>Clock = (\<lambda>layout. if layout = RFC3339 then ''2026-02-07T12:00:00Z'' else ''20260207120000''),
      Unmarshal = demo_Unmarshal,
      Ext = filepath_Ext,
      Base = filepath_Base,
      ScanFile = (\<lambda>c filePath tags. Inl (Err ''open: no such file or directory'')),
      ScanBuffer = (\<lambda>c data identifier tags. Inr data),
      Encode = (\<lambda>response. None)\<rparr>"

text \<open>
  A client that has digest on and the other options off, the defaults that the handler's
  comment at line 146 takes for granted.
\<close>

definition fresh_client :: AmaasClient where
  "fresh_client = \<lparr>digest = True, pml = False, feedback = False, verbose = False,
                    activeContent = False\<rparr>"

text \<open>
  A POST request with one value for each header; the names are written in the canonical
  form under which the server stores them.
\<close>

definition post :: "(string \<times> string) list \<Rightarrow> string \<Rightarrow> Request" where
  "post headers body =
     \<lparr>Method = ''POST'', Header = map (\<lambda>(k, v). (k, [v])) headers, Body = Inr body\<rparr>"

definition all_options_request :: Request where
  "all_options_request =
     post [(''X-Filename'', ''a.txt''), (''X-Digest-Enabled'', ''false''), (''X-Pml-Enabled'', ''true''),
           (''X-Spn-Feedback-Enabled'', ''true''), (''X-Verbose-Enabled'', ''true''),
           (''X-Active-Content-Enabled'', ''true'')] ''first''"

definition plain_request :: Request where
  "plain_request = post [(''X-Filename'', ''b.txt'')] ''second''"

definition gateway_request :: Request where
  "gateway_request = post [(''X-Filename'', ''report.pdf'')] gateway_page"

definition gateway_tags :: "string list" where
  "gateway_tags = [''app=finguard'', ''file_type=.pdf'', ''scan_method=buffer'', ''ml_enabled='',
                   ''spn_feedback='', ''active_content='', ''env=dev'']"

definition gateway_call :: sdk_scan where
  "gateway_call = ScanBufferCall fresh_client gateway_page ''20260207120000-report.pdf'' gateway_tags"

definition plain_tags :: "string list" where
  "plain_tags = [''app=finguard'', ''file_type=.txt'', ''scan_method=buffer'', ''ml_enabled='',
                 ''spn_feedback='', ''active_content='', ''team=a'']"

definition plain_call :: "AmaasClient \<Rightarrow> sdk_scan" where
  "plain_call c = ScanBufferCall c ''second'' ''20260207120000-b.txt'' plain_tags"


definition bare_request :: Request where
  "bare_request = post [] ''data''"

definition all_enabled_client :: AmaasClient where
  "all_enabled_client = \<lparr>digest = True, pml = True, feedback = True, verbose = True,
                          activeContent = True\<rparr>"

definition leaked_client :: AmaasClient where
  "leaked_client = \<lparr>digest = False, pml = True, feedback = True, verbose = True,
                     activeContent = True\<rparr>"





definition first_call :: sdk_scan where
  "first_call =
     ScanBufferCall leaked_client ''first'' ''20260207120000-a.txt''
       [''app=finguard'', ''file_type=.txt'', ''scan_method=buffer'', ''ml_enabled=true'',
        ''spn_feedback=true'', ''active_content=true'', ''team=a'']"

section \<open>\<open>scanner.go\<close>: startup\<close>

text \<open>
  What \<open>main\<close> reads from outside: the environment variables, whether the log file could
  be opened, and the SDK's two constructors. A constructor call is a value, so that the
  model can say which one was made.
\<close>

datatype sdk_new =
    NewClientInternalCall string string bool string
  | NewClientCall string string

record startup_world =
  Getenv :: "string \<Rightarrow> string"
  OpenLogFile :: "error option"
  Construct :: "sdk_new \<Rightarrow> error + AmaasClient"

definition getEnv :: "startup_world \<Rightarrow> string \<Rightarrow> string \<Rightarrow> string" where
  "getEnv w k defaultValue = (let v = Getenv w k in if v = [] then defaultValue else v)"

text \<open>\<open>strings.Split(s, ",")\<close>: the pieces between commas, empty pieces kept.\<close>

fun Split_comma :: "string \<Rightarrow> string list" where
  "Split_comma [] = [ [] ]"
| "Split_comma (c # cs) =
     (if c = CHR '','' then [] # Split_comma cs
      else (case Split_comma cs of [] \<Rightarrow> [ [c] ] | piece # pieces \<Rightarrow> (c # piece) # pieces))"

definition getCustomTags :: "startup_world \<Rightarrow> string list" where
  "getCustomTags w =
     (let customTags = Getenv w ''FSS_CUSTOM_TAGS''
      in if customTags = [] then [] else Split_comma customTags)"

text \<open>What \<open>%v\<close> prints for a \<open>bool\<close> and for a \<open>[]string\<close>.\<close>

definition fmt_bool :: "bool \<Rightarrow> string" where
  "fmt_bool b = (if b then ''true'' else ''false'')"

fun join_space :: "string list \<Rightarrow> string" where
  "join_space [] = []"
| "join_space [x] = x"
| "join_space (x # y # ys) = x @ '' '' @ join_space (y # ys)"

definition fmt_strings :: "string list \<Rightarrow> string" where
  "fmt_strings xs = ''['' @ join_space xs @ '']''"

text \<open>
  A run of the startup code: the lines given to \<open>log.Printf\<close>, the SDK constructor calls
  made, and how it ends: \<open>log.Fatal\<close> with its message (the process exits) or the call of
  \<open>startHTTPServer(client, customTags, endpoint)\<close>.
\<close>

datatype startup = Fatal string | StartHTTPServer AmaasClient "string list" string

record startup_run =
  log_lines :: "string list"
  sdk_calls :: "sdk_new list"
  outcome :: startup

text \<open>Lines 76 to 110: the choice of the backend.\<close>

definition resolve_backend :: "startup_world \<Rightarrow> startup_run" where
  "resolve_backend w =
     (let apiKey = Getenv w ''FSS_API_KEY'';
          region = getEnv w ''FSS_REGION'' ''us-1'';
          externalAddr = Getenv w ''SCANNER_EXTERNAL_ADDR'';
          useTLS = (Getenv w ''SCANNER_USE_TLS'' = ''true'');
          customTags = getCustomTags w;
          started = [''Scanner Service Starting'', ''Configuration:'']
      in if externalAddr \<noteq> [] then
           (let printed = started @
                  [''- Mode: External Scanner (gRPC)'',
                   ''- Scanner Address: '' @ externalAddr,
                   ''- TLS: '' @ fmt_bool useTLS,
                   ''- Custom Tags: '' @ fmt_strings customTags];
                new = NewClientInternalCall [] externalAddr useTLS []
            in case Construct w new of
                 Inl err \<Rightarrow>
                   \<lparr>log_lines = printed, sdk_calls = [new],
                    outcome = Fatal (''Failed to create external scanner client: '' @ Error_string err)\<rparr>
               | Inr client \<Rightarrow>
                   \<lparr>log_lines = printed, sdk_calls = [new],
                    outcome = StartHTTPServer client customTags externalAddr\<rparr>)
         else if apiKey = [] then
           \<lparr>log_lines = started, sdk_calls = [],
            outcome = Fatal ''FSS_API_KEY must be set when not using external scanner''\<rparr>
         else
           (let printed = started @
                  [''- Mode: SaaS SDK Scanner'',
                   ''- Region: '' @ region,
                   ''- Custom Tags: '' @ fmt_strings customTags];
                new = NewClientCall apiKey region
            in case Construct w new of
                 Inl err \<Rightarrow>
                   \<lparr>log_lines = printed, sdk_calls = [new],
                    outcome = Fatal (''Failed to create SaaS SDK scanner client: '' @ Error_string err)\<rparr>
               | Inr client \<Rightarrow>
                   \<lparr>log_lines = printed, sdk_calls = [new],
                    outcome = StartHTTPServer client customTags region\<rparr>))"

text \<open>
  \<open>main\<close>: the log file is opened first, and a failure there is fatal before anything
  else. (\<open>initS3Logger\<close> writes to a logger of its own and cannot fail the startup.)
\<close>

definition main :: "startup_world \<Rightarrow> startup_run" where
  "main w =
     (case OpenLogFile w of
        Some err \<Rightarrow>
          \<lparr>log_lines = [], sdk_calls = [],
           outcome = Fatal (''Error opening log file: '' @ Error_string err)\<rparr>
      | None \<Rightarrow> resolve_backend w)"

section \<open>\<open>s3scanner.go\<close>: the S3 reader\<close>

text \<open>
  The AWS SDK is a parameter. \<open>LoadDefaultConfig\<close> takes the region and, when both keys
  are given, the static credentials; the configuration it returns stands for the S3 client
  made from it. \<open>GetObjectAttributes\<close> returns the \<open>ObjectSize\<close> pointer (\<open>None\<close> for nil).
  \<open>GetObject\<close> takes the bucket, the key and the \<open>Range\<close> header; the body it returns is
  held by what \<open>io.ReadAll\<close> makes of it: the bytes read and the read error, if any.
\<close>

record 'c s3_api =
  LoadDefaultConfig :: "string \<Rightarrow> (string \<times> string) option \<Rightarrow> error + 'c"
  GetObjectAttributes :: "'c \<Rightarrow> string \<Rightarrow> string \<Rightarrow> error + 64 word option"
  GetObject :: "'c \<Rightarrow> string \<Rightarrow> string \<Rightarrow> string \<Rightarrow> error + (string \<times> error option)"

text \<open>A request sent to the store, recorded so that the model can count them.\<close>

datatype s3_call =
    GetObjectAttributesCall string string
  | GetObjectCall string string string

text \<open>
  The struct \<open>S3ClientReader\<close>; \<open>size\<close> is an \<open>int64\<close>. The fields carry the suffix
  \<open>_r\<close> of the receiver, \<open>size\<close> being taken in HOL.
\<close>

record 'c S3ClientReader =
  client_r :: 'c
  bucket_r :: string
  key_r :: string
  size_r :: "64 word"

text \<open>Lines 49 to 60: static credentials are used only when both keys are given.\<close>

definition load_config :: "'c s3_api \<Rightarrow> string \<Rightarrow> string \<Rightarrow> string \<Rightarrow> error + 'c" where
  "load_config api awsAccessKey awsSecretKey bucketRegion =
     (if awsAccessKey \<noteq> [] \<and> awsSecretKey \<noteq> []
      then LoadDefaultConfig api bucketRegion (Some (awsAccessKey, awsSecretKey))
      else LoadDefaultConfig api bucketRegion None)"

text \<open>The constructor returns the requests it sent to the store and its result.\<close>

definition NewS3ClientReader ::
  "'c s3_api \<Rightarrow> string \<Rightarrow> string \<Rightarrow> string \<Rightarrow> string \<Rightarrow> string
     \<Rightarrow> s3_call list \<times> (error + 'c S3ClientReader)" where
  "NewS3ClientReader api awsAccessKey awsSecretKey bucketRegion bucket k =
     (case load_config api awsAccessKey awsSecretKey bucketRegion of
        Inl err \<Rightarrow> ([], Inl err)
      | Inr cfg \<Rightarrow>
          (case GetObjectAttributes api cfg bucket k of
             Inl err \<Rightarrow> ([GetObjectAttributesCall bucket k], Inl err)
           | Inr ObjectSize \<Rightarrow>
               (case ObjectSize of
                  None \<Rightarrow> ([GetObjectAttributesCall bucket k],
                           Inl (Err ''unable to get object size from S3''))
                | Some n \<Rightarrow> ([GetObjectAttributesCall bucket k],
                             Inr \<lparr>client_r = cfg, bucket_r = bucket, key_r = k, size_r = n\<rparr>))))"

definition Identifier :: "'c S3ClientReader \<Rightarrow> string" where
  "Identifier r = ''s3://'' @ bucket_r r @ ''/'' @ key_r r"

definition DataSize :: "'c S3ClientReader \<Rightarrow> 64 word \<times> error option" where
  "DataSize r = (size_r r, None)"

text \<open>\<open>%d\<close> of a signed integer; \<open>digit_char\<close> is only applied below 10.\<close>

definition digit_char :: "nat \<Rightarrow> char" where
  "digit_char d = ''0123456789'' ! d"

function decimal :: "nat \<Rightarrow> string" where
  "decimal n = (if n < 10 then [digit_char n] else decimal (n div 10) @ [digit_char (n mod 10)])"
  by pat_completeness auto
termination
  by (relation "measure id") auto

declare decimal.simps [simp del]

definition fmt_d :: "int \<Rightarrow> string" where
  "fmt_d i = (if i < 0 then ''-'' @ decimal (nat (- i)) else decimal (nat i))"

text \<open>
  \<open>ReadBytes(offset int64, length int32)\<close>. The end of the range is computed in \<open>int64\<close>
  (\<open>scast\<close> is the conversion \<open>int64(length)\<close>; the sum wraps). The result is the pair
  \<open>([]byte, error)\<close>, a nil slice being the empty string.
\<close>

definition byte_range :: "64 word \<Rightarrow> 32 word \<Rightarrow> string" where
  "byte_range offset len =
     ''bytes='' @ fmt_d (sint offset) @ ''-'' @ fmt_d (sint (offset + scast len - 1))"

definition ReadBytes ::
  "'c s3_api \<Rightarrow> 'c S3ClientReader \<Rightarrow> 64 word \<Rightarrow> 32 word
     \<Rightarrow> s3_call list \<times> (string \<times> error option)" where
  "ReadBytes api r offset len =
     (let rng = byte_range offset len;
          sent = [GetObjectCall (bucket_r r) (key_r r) rng]
      in case GetObject api (client_r r) (bucket_r r) (key_r r) rng of
           Inl err \<Rightarrow> (sent, ([], Some err))
         | Inr (bytes, readErr) \<Rightarrow>
             (case readErr of
                None \<Rightarrow> (sent, (bytes, None))
              | Some err \<Rightarrow>
                  if err \<noteq> EOF
                  then (sent, ([], Some (Err (''error reading S3 object body: '' @ Error_string err))))
                  else (sent, (bytes, Some err))))"

text \<open>
  The three methods of the reader, as the scanning backend may call them in any order
  and any number of times. None of them assigns a field of the reader. The store may
  differ from one call to the next, so each operation comes with the store it meets.
\<close>

datatype reader_op = OpIdentifier | OpDataSize | OpReadBytes "64 word" "32 word"

datatype reader_result =
    GotIdentifier string
  | GotDataSize "64 word" "error option"
  | GotBytes string "error option"

fun reader_call :: "'c s3_api \<Rightarrow> 'c S3ClientReader \<Rightarrow> reader_op \<Rightarrow> s3_call list \<times> reader_result" where
  "reader_call api r OpIdentifier = ([], GotIdentifier (Identifier r))"
| "reader_call api r OpDataSize = (case DataSize r of (n, err) \<Rightarrow> ([], GotDataSize n err))"
| "reader_call api r (OpReadBytes offset len) =
     (case ReadBytes api r offset len of (sent, (bytes, err)) \<Rightarrow> (sent, GotBytes bytes err))"

fun reader_calls ::
  "'c S3ClientReader \<Rightarrow> ('c s3_api \<times> reader_op) list \<Rightarrow> (s3_call list \<times> reader_result) list" where
  "reader_calls r [] = []"
| "reader_calls r ((api, op) # ops) = reader_call api r op # reader_calls r ops"

section \<open>\<open>s3scanner.go\<close>: the S3 scan endpoint\<close>

text \<open>
  The decoded request body; \<open>Tags\<close> is a slice that is nil (\<open>None\<close>) when the field is
  absent or null. The field is named \<open>Tags_in\<close> here, \<open>Tags\<close> being a field of
  \<open>ScanResponse\<close>.
\<close>

record s3_scan_request =
  AwsAccessKey :: string
  AwsSecretKey :: string
  Region :: string
  Bucket :: string
  Key :: string
  Tags_in :: "string list option"

record s3_scan_reply =
  scanResult_out :: string
  bucket_out :: string
  key_out :: string
  region_out :: string

text \<open>
  \<open>Decode\<close> is \<open>json.NewDecoder(r.Body).Decode(&req)\<close>; \<open>ScanReader\<close> is the SDK call,
  which sees the client's flags, the reader and the tags.
\<close>

record 'c s3_platform =
  Decode :: "error + string \<Rightarrow> error + s3_scan_request"
  S3 :: "'c s3_api"
  ScanReader :: "AmaasClient \<Rightarrow> 'c S3ClientReader \<Rightarrow> string list \<Rightarrow> error + string"

datatype 'c reader_scan = ScanReaderCall AmaasClient "'c S3ClientReader" "string list"

text \<open>Lines 381 to 387.\<close>

definition s3_scan_tags :: "string list option \<Rightarrow> string list" where
  "s3_scan_tags reqTags =
     (case reqTags of
        None \<Rightarrow> [''source:s3'']
      | Some tags \<Rightarrow> tags @ [''source:s3''])"

text \<open>
  The handler returns the backend calls it made (none or one) and its reply. The lines
  that parse the scan result only write to the log and are not part of the model.
\<close>

definition handleScanS3Object ::
  "'c s3_platform \<Rightarrow> AmaasClient \<Rightarrow> Request \<Rightarrow> 'c reader_scan list \<times> s3_scan_reply reply" where
  "handleScanS3Object env scannerClient r =
     (if Method r \<noteq> ''POST'' then ([], HttpError 405 ''Method not allowed'')
      else case Decode env (Body r) of
             Inl err \<Rightarrow> ([], HttpError 400 ''Invalid request'')
           | Inr req \<Rightarrow>
               (case snd (NewS3ClientReader (S3 env) (AwsAccessKey req) (AwsSecretKey req)
                            (Region req) (Bucket req) (Key req)) of
                  Inl err \<Rightarrow>
                    ([], HttpError 500 (''Failed to create S3 reader: '' @ Error_string err))
                | Inr reader \<Rightarrow>
                    (let tags = s3_scan_tags (Tags_in req);
                         call = ScanReaderCall scannerClient reader tags
                     in case ScanReader env scannerClient reader tags of
                          Inl err \<Rightarrow> ([call], HttpError 500 (''Scan failed: '' @ Error_string err))
                        | Inr scanResult \<Rightarrow>
                            ([call], Json 200 \<lparr>scanResult_out = scanResult, bucket_out = Bucket req,
                                               key_out = Key req, region_out = Region req\<rparr>))))"


section \<open>The server as a sequence of requests\<close>

text \<open>
  \<open>startHTTPServer\<close> registers its handlers once, each a closure over the one client
  pointer: \<open>/scan\<close>, \<open>/health\<close>, \<open>/s3/buckets\<close>, \<open>/s3/objects\<close> and \<open>/s3/scan\<close>. Only the
  scan handler calls a setter of the client, and only the two scan endpoints call the
  backend. The requests are taken here one after the other, each with its path; each
  handler run starts from the client as the run before it left it. The result is the
  client at the end and the backend calls made, in order.
\<close>

datatype 'c backend_call = Scan sdk_scan | ReaderScan "'c reader_scan"

fun backend_client :: "'c backend_call \<Rightarrow> AmaasClient" where
  "backend_client (Scan call) = call_client call"
| "backend_client (ReaderScan (ScanReaderCall c reader tags)) = c"

fun serve ::
  "platform \<Rightarrow> 'c s3_platform \<Rightarrow> AmaasClient \<Rightarrow> string list \<Rightarrow> (string \<times> Request) list
     \<Rightarrow> AmaasClient \<times> 'c backend_call list" where
  "serve env env3 client customTags [] = (client, [])"
| "serve env env3 client customTags ((path, r) # rs) =
     (if path = ''/scan'' then
        (case scan_handler env client customTags r of
           (client', calls, reply) \<Rightarrow>
             (case serve env env3 client' customTags rs of
                (client'', calls') \<Rightarrow> (client'', map Scan calls @ calls')))
      else if path = ''/s3/scan'' then
        (case handleScanS3Object env3 client r of
           (calls, reply) \<Rightarrow>
             (case serve env env3 client customTags rs of
                (client'', calls') \<Rightarrow> (client'', map ReaderScan calls @ calls')))
      else serve env env3 client customTags rs)"

section \<open>Concrete surroundings for the examples\<close>

text \<open>
  A startup world is given by its environment variables; the log file opens and the SDK
  constructors return the client \<open>fresh_client\<close>.
\<close>

definition world_of :: "(string \<times> string) list \<Rightarrow> startup_world" where
  "world_of vars =
     \<lparr>Getenv = (\<lambda>k. case map_of vars k of None \<Rightarrow> [] | Some v \<Rightarrow> v),
      OpenLogFile = None,
      Construct = (\<lambda>new. Inr fresh_client)\<rparr>"

definition both_configured :: startup_world where
  "both_configured =
     world_of [(''SCANNER_EXTERNAL_ADDR'', ''10.10.21.201:50051''), (''FSS_API_KEY'', ''test-key-here'')]"

definition cloud_only :: startup_world where
  "cloud_only = world_of [(''FSS_API_KEY'', ''test-key-here'')]"

definition nothing_configured :: startup_world where
  "nothing_configured = world_of [(''FSS_REGION'', ''eu-1'')]"

text \<open>
  A store with one object of 11 bytes under the key \<open>hello.txt\<close>, one object whose size
  the store does not report, and no other object. It serves the two ranges asked for
  below: bytes 6 to 15, which reach past the end of the object and are cut there, and
  bytes 0 to 3. The configuration is the region.
\<close>

definition demo_object :: string where
  "demo_object = ''hello world''"

definition demo_s3 :: "string s3_api" where
  "demo_s3 =
     \<lparr>LoadDefaultConfig = (\<lambda>region creds. Inr region),
      GetObjectAttributes = (\<lambda>cfg bucket k.
         if k = ''hello.txt'' then Inr (Some 11)
         else if k = ''nosize'' then Inr None
         else Inl (Err ''NoSuchKey'')),
      GetObject = (\<lambda>cfg bucket k rng.
         if k = ''hello.txt'' \<and> rng = ''bytes=6-15'' then Inr (drop 6 demo_object, None)
         else if k = ''hello.txt'' \<and> rng = ''bytes=0-3'' then Inr (take 4 demo_object, None)
         else Inl (Err ''InvalidRange''))\<rparr>"

text \<open>The same store after the object has grown: it now reports 20 bytes.\<close>

definition grown_s3 :: "string s3_api" where
  "grown_s3 = demo_s3\<lparr>GetObjectAttributes := (\<lambda>cfg bucket k. Inr (Some 20))\<rparr>"

definition demo_reader :: "string S3ClientReader" where
  "demo_reader = \<lparr>client_r = ''us-east-1'', bucket_r = ''bucket'', key_r = ''hello.txt'', size_r = 11\<rparr>"

definition tagged_body :: string where
  \<open>tagged_body = ''{"region":"us-east-1","bucket":"bucket","key":"hello.txt","tags":["team=a","env=dev"]}''\<close>

definition untagged_body :: string where
  \<open>untagged_body = ''{"region":"us-east-1","bucket":"bucket","key":"hello.txt"}''\<close>

definition demo_scan_request :: "string list option \<Rightarrow> s3_scan_request" where
  "demo_scan_request tags =
     \<lparr>AwsAccessKey = [], AwsSecretKey = [], Region = ''us-east-1'', Bucket = ''bucket'',
      Key = ''hello.txt'', Tags_in = tags\<rparr>"

definition demo_s3_platform :: "string s3_platform" where
  \<open>demo_s3_platform =
     \<lparr>Decode = (\<lambda>body.
         if body = Inr tagged_body then Inr (demo_scan_request (Some [''team=a'', ''env=dev'']))
         else if body = Inr untagged_body then Inr (demo_scan_request None)
         else Inl (Err ''invalid character'')),
      S3 = demo_s3,
      ScanReader = (\<lambda>c reader tags. Inr clean_payload)\<rparr>\<close>


text \<open>
  Two runs of the server: one in which the first request sets every option and is
  followed by an S3 scan, a health check and a scan that sets nothing, and one of two
  requests that set nothing.
\<close>

definition leaking_run :: "(string \<times> Request) list" where
  "leaking_run =
     [(''/scan'', all_options_request), (''/s3/scan'', post [] tagged_body),
      (''/health'', \<lparr>Method = ''GET'', Header = [], Body = Inr []\<rparr>),
      (''/scan'', plain_request)]"

definition quiet_run :: "(string \<times> Request) list" where
  "quiet_run = [(''/scan'', plain_request), (''/s3/scan'', post [] untagged_body)]"

section \<open>Health endpoint: verified properties\<close>

text \<open>
  C8. The health endpoint answers 503 with status \<open>unhealthy\<close> when the client is nil,
  and 200 with status \<open>healthy\<close> for every client that is not nil; both answers carry
  the active endpoint string.
\<close>

theorem health_unhealthy_exactly_when_nil:
  "health_handler env None customTags endpoint =
     Json 503 \<lparr>Status = ''unhealthy'', Timestamp = Clock env RFC3339,
               CustomTags = customTags, APIEndpoint = endpoint\<rparr>
   \<and> health_handler env (Some c) customTags endpoint =
     Json 200 \<lparr>Status = ''healthy'', Timestamp = Clock env RFC3339,
               CustomTags = customTags, APIEndpoint = endpoint\<rparr>"
  by (simp add: health_handler_def)

section \<open>Scan endpoint: verified properties\<close>

subsection \<open>Shared lemmas\<close>

lemma append_names_eq:
  "append_names k ms tags = tags @ name_tags (record_names k ms)"
  by (induction ms arbitrary: tags)
     (auto simp: record_names_def name_tags_def split: json.splits option.splits)

lemma choose_scan_call:
  "choose_scan env c ct r = Inr call \<Longrightarrow>
     call_tags call = initial_tags env ct r \<and> call_client call = c"
  by (auto simp: choose_scan_def Let_def split: if_splits sum.splits)

lemma check_atse_eq:
  "check_atse scanData (safe, tags) =
     (safe \<and> \<not> verbose_fires scanData, tags @ name_tags (nested_names scanData))"
  by (auto simp: check_atse_def verbose_fires_def nested_names_def atse_of_def append_names_eq
        name_tags_def Let_def split: option.splits json.splits)

lemma check_foundMalwares_eq:
  "check_foundMalwares scanData (safe, tags) =
     (safe \<and> \<not> legacy_fires scanData, tags @ name_tags (legacy_names scanData))"
  by (auto simp: check_foundMalwares_def legacy_fires_def legacy_names_def legacy_list_def
        append_names_eq name_tags_def record_names_def split: option.splits json.splits)

lemma header_names:
  "CanonicalMIMEHeaderKey ''X-Filename'' = ''X-Filename''"
  "CanonicalMIMEHeaderKey ''X-Scan-Method'' = ''X-Scan-Method''"
  "CanonicalMIMEHeaderKey ''X-File-Path'' = ''X-File-Path''"
  "CanonicalMIMEHeaderKey ''X-Digest-Enabled'' = ''X-Digest-Enabled''"
  "CanonicalMIMEHeaderKey ''X-PML-Enabled'' = ''X-Pml-Enabled''"
  "CanonicalMIMEHeaderKey ''X-SPN-Feedback-Enabled'' = ''X-Spn-Feedback-Enabled''"
  "CanonicalMIMEHeaderKey ''X-Verbose-Enabled'' = ''X-Verbose-Enabled''"
  "CanonicalMIMEHeaderKey ''X-Active-Content-Enabled'' = ''X-Active-Content-Enabled''"
  by code_simp+

lemmas demo_simps = header_names RFC3339_def demo_platform_def demo_Unmarshal_def zero_count_map_def
  zero_count_payload_def both_paths_payload_def both_paths_map_def clean_payload_def
  clean_map_def gateway_page_def post_def fresh_client_def Header_Get_def
  scan_handler_def choose_scan_def apply_toggles_def initial_tags_def request_filename_def
  request_scanMethod_def scan_identifier_def build_response_def parse_scan_result_def
  check_atse_def check_foundMalwares_def filepath_Ext_def filepath_Base_def
  SetDigestDisable_def SetPMLEnable_def SetFeedbackEnable_def SetVerboseEnable_def
  SetActiveContentEnable_def

subsection \<open>Unparseable backend answers\<close>

text \<open>
  C1. When the backend call of a scan request succeeds with a string that
  \<open>json.Unmarshal\<close> rejects, the response built is safe, its tags are the tags that were
  passed to the backend (no malware name is added), and \<open>Message\<close> and \<open>Detections\<close> are
  that string unchanged. The handler answers 200 with this response; the parse failure is
  never an error (the one error left is a failure to write the response).
\<close>

theorem unparseable_result_is_safe:
  assumes "Method r = ''POST''"
      and "choose_scan env (apply_toggles r client) customTags r = Inr call"
      and "run_scan env call = Inr scanResult"
      and "Unmarshal env scanResult = Inl err"
  shows "scan_handler env client customTags r =
           (apply_toggles r client, [call],
            let response = \<lparr>IsSafe = True, Message = scanResult, ScanID = scan_identifier env r,
                             Detections = scanResult, Tags = initial_tags env customTags r\<rparr>
            in case Encode env response of
                 None \<Rightarrow> Json 200 response
               | Some e \<Rightarrow> HttpError 500 ''Error encoding response'')"
  using assms choose_scan_call[OF assms(2)]
  by (simp add: scan_handler_def build_response_def parse_scan_result_def Let_def
        split: option.splits)

theorem unparseable_result_is_safe_witness:
  "Method gateway_request = ''POST''
   \<and> choose_scan demo_platform (apply_toggles gateway_request fresh_client) [''env=dev'']
        gateway_request = Inr gateway_call
   \<and> run_scan demo_platform gateway_call = Inr gateway_page
   \<and> Unmarshal demo_platform gateway_page = Inl (Err ''invalid character'')
   \<and> scan_handler demo_platform fresh_client [''env=dev''] gateway_request =
       (fresh_client, [gateway_call],
        Json 200 \<lparr>IsSafe = True, Message = gateway_page, ScanID = ''20260207120000-report.pdf'',
                  Detections = gateway_page, Tags = gateway_tags\<rparr>)"
proof -
  have m: "Method gateway_request = ''POST''"
    by (simp add: gateway_request_def post_def)
  have t: "apply_toggles gateway_request fresh_client = fresh_client"
    by (simp add: gateway_request_def apply_toggles_def post_def Header_Get_def)
  have c: "choose_scan demo_platform (apply_toggles gateway_request fresh_client) [''env=dev'']
        gateway_request = Inr gateway_call"
    by (simp add: t gateway_request_def gateway_call_def gateway_tags_def demo_simps)
  have s: "run_scan demo_platform gateway_call = Inr gateway_page"
    by (simp add: gateway_call_def demo_platform_def)
  have u: "Unmarshal demo_platform gateway_page = Inl (Err ''invalid character'')"
    by (simp add: demo_simps)
  have i: "scan_identifier demo_platform gateway_request = ''20260207120000-report.pdf''"
    by (simp add: gateway_request_def demo_simps)
  have g: "initial_tags demo_platform [''env=dev''] gateway_request = gateway_tags"
    by (simp add: gateway_request_def gateway_tags_def demo_simps)
  have e: "Encode demo_platform = (\<lambda>response. None)"
    by (simp add: demo_platform_def)
  show ?thesis
    using unparseable_result_is_safe [OF m c s u] m c s u
    by (simp add: t i g e)
qed

subsection \<open>The two shapes of a parsed answer\<close>

text \<open>
  C2, as the claim states it, fails: in the payload below neither path indicates
  malware (the nested count is 0 and there is no \<open>foundMalwares\<close> list), yet the name
  listed under \<open>result.atse.malware\<close> is added to the tags of a response that is safe.
  The request is a buffer scan that the backend answers with this payload.
\<close>

theorem names_without_malware_counterexample:
  "Unmarshal demo_platform zero_count_payload = Inr zero_count_map
   \<and> \<not> verbose_fires zero_count_map
   \<and> \<not> legacy_fires zero_count_map
   \<and> snd (snd (scan_handler demo_platform fresh_client [] (post [] zero_count_payload)))
       = Json 200 \<lparr>IsSafe = True, Message = zero_count_payload,
                   ScanID = ''20260207120000-unknown'', Detections = zero_count_payload,
                   Tags = [''app=finguard'', ''file_type='', ''scan_method=buffer'',
                           ''ml_enabled='', ''spn_feedback='', ''active_content='',
                           ''malware_name=EICAR'']\<rparr>"
  by (simp add: demo_simps verbose_fires_def legacy_fires_def legacy_list_def atse_of_def Let_def)

text \<open>
  C2, amended. For every parsed payload both paths are evaluated, one after the other:
  the response is unsafe exactly when the verbose path fires (\<open>result.atse.malwareCount\<close>
  is a number above 0) or the legacy path fires (\<open>foundMalwares\<close> is a non-empty list).
  The malware-name tags appended are the names under \<open>result.atse.malware\<close>, read
  whenever \<open>result.atse\<close> is an object and whatever the count says, followed by the names
  under \<open>foundMalwares\<close>. A payload with no \<open>result.atse\<close> object and no non-empty
  \<open>foundMalwares\<close> list gives a safe response with no malware name.
\<close>

theorem scan_result_paths_additive:
  assumes "Unmarshal env scanResult = Inr scanData"
  shows "build_response env r tags scanResult =
           \<lparr>IsSafe = \<not> (verbose_fires scanData \<or> legacy_fires scanData),
            Message = scanResult, ScanID = scan_identifier env r, Detections = scanResult,
            Tags = tags @ name_tags (nested_names scanData @ legacy_names scanData)\<rparr>
         \<and> (atse_of scanData = None \<and> \<not> legacy_fires scanData \<longrightarrow>
              build_response env r tags scanResult =
                \<lparr>IsSafe = True, Message = scanResult, ScanID = scan_identifier env r,
                 Detections = scanResult, Tags = tags\<rparr>)"
proof -
  have parse: "parse_scan_result env scanResult tags =
      (\<not> (verbose_fires scanData \<or> legacy_fires scanData),
       tags @ name_tags (nested_names scanData @ legacy_names scanData))"
    using assms
    by (simp add: parse_scan_result_def check_atse_eq check_foundMalwares_eq name_tags_def)
  have none: "atse_of scanData = None \<Longrightarrow> \<not> verbose_fires scanData \<and> nested_names scanData = []"
    by (simp add: verbose_fires_def nested_names_def)
  have empty: "\<not> legacy_fires scanData \<Longrightarrow> legacy_names scanData = []"
    by (simp add: legacy_fires_def legacy_names_def record_names_def)
  show ?thesis
    using none empty by (auto simp: build_response_def parse name_tags_def)
qed

theorem scan_result_paths_additive_witness:
  "Unmarshal demo_platform both_paths_payload = Inr both_paths_map
   \<and> verbose_fires both_paths_map \<and> legacy_fires both_paths_map
   \<and> build_response demo_platform bare_request [''app=finguard''] both_paths_payload =
       \<lparr>IsSafe = False, Message = both_paths_payload, ScanID = ''20260207120000-unknown'',
        Detections = both_paths_payload,
        Tags = [''app=finguard'', ''malware_name=Eicar_test_file'', ''malware_name=TROJ_X'']\<rparr>
   \<and> Unmarshal demo_platform clean_payload = Inr clean_map
   \<and> atse_of clean_map = None \<and> \<not> legacy_fires clean_map
   \<and> build_response demo_platform bare_request [''app=finguard''] clean_payload =
       \<lparr>IsSafe = True, Message = clean_payload, ScanID = ''20260207120000-unknown'',
        Detections = clean_payload, Tags = [''app=finguard'']\<rparr>"
proof -
  have u1: "Unmarshal demo_platform both_paths_payload = Inr both_paths_map"
    by (simp add: demo_simps)
  have u2: "Unmarshal demo_platform clean_payload = Inr clean_map"
    by (simp add: demo_simps)
  have f: "verbose_fires both_paths_map" "legacy_fires both_paths_map"
    by (simp_all add: verbose_fires_def legacy_fires_def legacy_list_def atse_of_def
          both_paths_map_def)
  have n: "nested_names both_paths_map = [''Eicar_test_file'']"
    "legacy_names both_paths_map = [''TROJ_X'']"
    by (simp_all add: nested_names_def legacy_names_def legacy_list_def atse_of_def
          record_names_def both_paths_map_def)
  have c: "atse_of clean_map = None" "\<not> legacy_fires clean_map"
    by (simp_all add: atse_of_def legacy_fires_def legacy_list_def clean_map_def)
  have i: "scan_identifier demo_platform bare_request = ''20260207120000-unknown''"
    by (simp add: bare_request_def demo_simps)
  have both: "build_response demo_platform bare_request [''app=finguard''] both_paths_payload =
       \<lparr>IsSafe = False, Message = both_paths_payload, ScanID = ''20260207120000-unknown'',
        Detections = both_paths_payload,
        Tags = [''app=finguard'', ''malware_name=Eicar_test_file'', ''malware_name=TROJ_X'']\<rparr>"
    using scan_result_paths_additive [OF u1, of bare_request "[''app=finguard'']"]
    by (simp add: f n i name_tags_def)
  have clean: "build_response demo_platform bare_request [''app=finguard''] clean_payload =
       \<lparr>IsSafe = True, Message = clean_payload, ScanID = ''20260207120000-unknown'',
        Detections = clean_payload, Tags = [''app=finguard'']\<rparr>"
  proof -
    have "atse_of clean_map = None \<and> \<not> legacy_fires clean_map \<longrightarrow>
            build_response demo_platform bare_request [''app=finguard''] clean_payload =
              \<lparr>IsSafe = True, Message = clean_payload,
               ScanID = scan_identifier demo_platform bare_request,
               Detections = clean_payload, Tags = [''app=finguard'']\<rparr>"
      using scan_result_paths_additive [OF u2, of bare_request "[''app=finguard'']"]
      by (rule conjunct2)
    then show ?thesis
      using c by (simp add: i)
  qed
  show ?thesis
    using u1 u2 f c both clean by simp
qed

subsection \<open>The tags passed to the backend\<close>




subsection \<open>The shared client\<close>

lemma never_reset_refl: "never_reset c c"
  by (simp add: never_reset_def)

lemma never_reset_trans: "never_reset a b \<Longrightarrow> never_reset b c \<Longrightarrow> never_reset a c"
  by (auto simp: never_reset_def)

lemma apply_toggles_never_reset: "never_reset c (apply_toggles r c)"
  by (simp add: never_reset_def apply_toggles_def Let_def SetDigestDisable_def SetPMLEnable_def
        SetFeedbackEnable_def SetVerboseEnable_def SetActiveContentEnable_def)

lemma apply_toggles_sets:
  "(Header_Get r ''X-PML-Enabled'' = ''true'' \<longrightarrow> pml (apply_toggles r c)) \<and>
   (Header_Get r ''X-SPN-Feedback-Enabled'' = ''true'' \<longrightarrow> feedback (apply_toggles r c)) \<and>
   (Header_Get r ''X-Verbose-Enabled'' = ''true'' \<longrightarrow> verbose (apply_toggles r c)) \<and>
   (Header_Get r ''X-Active-Content-Enabled'' = ''true'' \<longrightarrow> activeContent (apply_toggles r c)) \<and>
   (Header_Get r ''X-Digest-Enabled'' = ''false'' \<longrightarrow> \<not> digest (apply_toggles r c))"
  by (simp add: apply_toggles_def Let_def SetDigestDisable_def SetPMLEnable_def
        SetFeedbackEnable_def SetVerboseEnable_def SetActiveContentEnable_def)

lemma scan_handler_client:
  "fst (scan_handler env c ct r) = (if Method r = ''POST'' then apply_toggles r c else c)"
  by (simp add: scan_handler_def Let_def split: sum.splits option.splits)

lemma scan_handler_calls:
  "call \<in> set (fst (snd (scan_handler env c ct r))) \<Longrightarrow> call_client call = apply_toggles r c"
  by (auto simp: scan_handler_def Let_def choose_scan_call split: if_splits sum.splits option.splits)

lemma handleScanS3Object_calls:
  "call \<in> set (fst (handleScanS3Object env3 c r)) \<Longrightarrow> backend_client (ReaderScan call) = c"
  by (auto simp: handleScanS3Object_def Let_def split: if_splits sum.splits)

lemma serve_never_reset:
  "never_reset c (fst (serve env env3 c ct rs)) \<and>
   (\<forall>call \<in> set (snd (serve env env3 c ct rs)). never_reset c (backend_client call))"
proof (induction rs arbitrary: c)
  case Nil
  show ?case by (simp add: never_reset_refl)
next
  case (Cons pr rs)
  obtain path r where pr: "pr = (path, r)" by (cases pr)
  show ?case
  proof (cases "path = ''/scan''")
    case True
    obtain c' calls reply where h: "scan_handler env c ct r = (c', calls, reply)"
      by (cases "scan_handler env c ct r") auto
    obtain c'' calls' where s: "serve env env3 c' ct rs = (c'', calls')"
      by (cases "serve env env3 c' ct rs") auto
    have step: "never_reset c c'"
      using scan_handler_client[of env c ct r] h
      by (auto simp: never_reset_refl apply_toggles_never_reset split: if_splits)
    have here: "\<forall>call \<in> set calls. never_reset c (call_client call)"
      using scan_handler_calls[of _ env c ct r] h by (auto simp: apply_toggles_never_reset)
    have later: "never_reset c' c''" "\<forall>call \<in> set calls'. never_reset c' (backend_client call)"
      using Cons.IH[of c'] s by auto
    show ?thesis
      using True pr step here later h s by (auto intro: never_reset_trans)
  next
    case False
    note other = this
    show ?thesis
    proof (cases "path = ''/s3/scan''")
      case True
      obtain calls reply where h: "handleScanS3Object env3 c r = (calls, reply)"
        by (cases "handleScanS3Object env3 c r") auto
      obtain c'' calls' where s: "serve env env3 c ct rs = (c'', calls')"
        by (cases "serve env env3 c ct rs") auto
      have here: "\<forall>call \<in> set calls. never_reset c (backend_client (ReaderScan call))"
        using handleScanS3Object_calls[of _ env3 c r] h by (auto simp: never_reset_refl)
      have later: "never_reset c c''" "\<forall>call \<in> set calls'. never_reset c (backend_client call)"
        using Cons.IH[of c] s by auto
      show ?thesis
        using True other pr here later h s by auto
    next
      case False
      then show ?thesis
        using other pr Cons.IH[of c] by simp
    qed
  qed
qed

text \<open>
  C9. The option setters act on the one client that all requests share, and nothing
  resets it. Take any run of requests that starts with a POST request \<open>r\<close> to \<open>/scan\<close>,
  and take the client as it is at any backend call made during the run (by \<open>r\<close>, by a
  later scan, or by a later S3 scan) or as it is at the end of the run. If \<open>r\<close> enabled
  PML, SPN feedback, verbose or active content, that option is on there; if \<open>r\<close>
  disabled digest, digest is off there. Whatever was enabled before the run is still
  enabled there, and digest is on there only if it was on before: no request re-enables
  digest or disables another option.
\<close>

theorem toggles_never_reset:
  assumes "Method r = ''POST''"
      and "c' = fst (serve env env3 client customTags ((''/scan'', r) # rs))
           \<or> (\<exists>call \<in> set (snd (serve env env3 client customTags ((''/scan'', r) # rs))).
                 c' = backend_client call)"
  shows "(Header_Get r ''X-PML-Enabled'' = ''true'' \<longrightarrow> pml c') \<and>
         (Header_Get r ''X-SPN-Feedback-Enabled'' = ''true'' \<longrightarrow> feedback c') \<and>
         (Header_Get r ''X-Verbose-Enabled'' = ''true'' \<longrightarrow> verbose c') \<and>
         (Header_Get r ''X-Active-Content-Enabled'' = ''true'' \<longrightarrow> activeContent c') \<and>
         (Header_Get r ''X-Digest-Enabled'' = ''false'' \<longrightarrow> \<not> digest c') \<and>
         never_reset client c'"
proof -
  let ?c1 = "apply_toggles r client"
  obtain c1 calls reply where h: "scan_handler env client customTags r = (c1, calls, reply)"
    by (cases "scan_handler env client customTags r") auto
  have c1: "c1 = ?c1"
    using scan_handler_client[of env client customTags r] h assms(1) by simp
  obtain c'' calls' where s: "serve env env3 ?c1 customTags rs = (c'', calls')"
    by (cases "serve env env3 ?c1 customTags rs") auto
  have run: "serve env env3 client customTags ((''/scan'', r) # rs) = (c'', map Scan calls @ calls')"
    using h c1 s by simp
  have rest: "never_reset ?c1 c''" "\<forall>call \<in> set calls'. never_reset ?c1 (backend_client call)"
    using serve_never_reset[of ?c1 env env3 customTags rs] s by auto
  have first: "\<forall>call \<in> set calls. call_client call = ?c1"
    using scan_handler_calls[of _ env client customTags r] h by auto
  have place: "c' = c'' \<or> (\<exists>call \<in> set (map Scan calls @ calls'). c' = backend_client call)"
    using assms(2) by (simp only: run fst_conv snd_conv)
  have carried: "never_reset ?c1 c'"
    using place rest first by (auto simp: never_reset_refl)
  have total: "never_reset client c'"
    using carried apply_toggles_never_reset[of client r] by (rule never_reset_trans[rotated])
  show ?thesis
    using carried total apply_toggles_sets[of r client]
    by (auto simp: never_reset_def)
qed

theorem toggles_never_reset_witness:
  "Method all_options_request = ''POST''
   \<and> Header all_options_request =
       [(''X-Filename'', [''a.txt'']), (''X-Digest-Enabled'', [''false'']),
        (''X-Pml-Enabled'', [''true'']), (''X-Spn-Feedback-Enabled'', [''true'']),
        (''X-Verbose-Enabled'', [''true'']), (''X-Active-Content-Enabled'', [''true''])]
   \<and> Header_Get all_options_request ''X-PML-Enabled'' = ''true''
   \<and> Header_Get all_options_request ''X-SPN-Feedback-Enabled'' = ''true''
   \<and> Header_Get all_options_request ''X-Verbose-Enabled'' = ''true''
   \<and> Header_Get all_options_request ''X-Active-Content-Enabled'' = ''true''
   \<and> Header_Get all_options_request ''X-Digest-Enabled'' = ''false''
   \<and> hd leaking_run = (''/scan'', all_options_request)
   \<and> serve demo_platform demo_s3_platform fresh_client [''team=a''] leaking_run
       = (leaked_client,
          [Scan first_call,
           ReaderScan (ScanReaderCall leaked_client demo_reader [''team=a'', ''env=dev'', ''source:s3'']),
           Scan (plain_call leaked_client)])
   \<and> pml leaked_client \<and> feedback leaked_client \<and> verbose leaked_client
   \<and> activeContent leaked_client \<and> \<not> digest leaked_client
   \<and> Method plain_request = ''POST''
   \<and> hd quiet_run = (''/scan'', plain_request)
   \<and> serve demo_platform demo_s3_platform all_enabled_client [''team=a''] quiet_run
       = (all_enabled_client,
          [Scan (plain_call all_enabled_client),
           ReaderScan (ScanReaderCall all_enabled_client demo_reader [''source:s3''])])
   \<and> pml all_enabled_client \<and> feedback all_enabled_client \<and> verbose all_enabled_client
   \<and> activeContent all_enabled_client \<and> digest all_enabled_client
   \<and> never_reset all_enabled_client all_enabled_client"
proof -
  have m1: "Method all_options_request = ''POST''"
    by (simp add: all_options_request_def post_def)
  have m2: "Method plain_request = ''POST''"
    by (simp add: plain_request_def post_def)
  have ha: "Header all_options_request =
       [(''X-Filename'', [''a.txt'']), (''X-Digest-Enabled'', [''false'']),
        (''X-Pml-Enabled'', [''true'']), (''X-Spn-Feedback-Enabled'', [''true'']),
        (''X-Verbose-Enabled'', [''true'']), (''X-Active-Content-Enabled'', [''true''])]"
    by (simp add: all_options_request_def post_def)
  have hs: "Header_Get all_options_request ''X-PML-Enabled'' = ''true''"
    "Header_Get all_options_request ''X-SPN-Feedback-Enabled'' = ''true''"
    "Header_Get all_options_request ''X-Verbose-Enabled'' = ''true''"
    "Header_Get all_options_request ''X-Active-Content-Enabled'' = ''true''"
    "Header_Get all_options_request ''X-Digest-Enabled'' = ''false''"
    "Header_Get all_options_request ''X-Filename'' = ''a.txt''"
    "Header_Get all_options_request ''X-Scan-Method'' = []"
    "Header_Get all_options_request ''X-File-Path'' = []"
    by (simp_all add: Header_Get_def header_names ha)
  have hp: "Header plain_request = [(''X-Filename'', [''b.txt''])]"
    by (simp add: plain_request_def post_def)
  have hq: "Header_Get plain_request ''X-PML-Enabled'' = []"
    "Header_Get plain_request ''X-SPN-Feedback-Enabled'' = []"
    "Header_Get plain_request ''X-Verbose-Enabled'' = []"
    "Header_Get plain_request ''X-Active-Content-Enabled'' = []"
    "Header_Get plain_request ''X-Digest-Enabled'' = []"
    "Header_Get plain_request ''X-Filename'' = ''b.txt''"
    "Header_Get plain_request ''X-Scan-Method'' = []"
    "Header_Get plain_request ''X-File-Path'' = []"
    by (simp_all add: Header_Get_def header_names hp)
  have ba: "Body all_options_request = Inr ''first''"
    by (simp add: all_options_request_def post_def)
  have bp: "Body plain_request = Inr ''second''"
    by (simp add: plain_request_def post_def)
  have t1: "apply_toggles all_options_request fresh_client = leaked_client"
    by (simp add: apply_toggles_def hs fresh_client_def leaked_client_def SetDigestDisable_def
          SetPMLEnable_def SetFeedbackEnable_def SetVerboseEnable_def SetActiveContentEnable_def)
  have t2: "apply_toggles plain_request c = c" for c
    by (simp add: apply_toggles_def hq)
  have first: "scan_handler demo_platform fresh_client [''team=a''] all_options_request
                 = (leaked_client, [first_call],
                    Json 200 (build_response demo_platform all_options_request
                      (call_tags first_call) ''first''))"
    by (simp add: scan_handler_def m1 t1 choose_scan_def initial_tags_def request_filename_def
          request_scanMethod_def scan_identifier_def hs ba first_call_def
          demo_platform_def filepath_Ext_def filepath_Base_def Let_def RFC3339_def)
  have plain: "scan_handler demo_platform c [''team=a''] plain_request
                 = (c, [plain_call c], Json 200 (build_response demo_platform plain_request
                      plain_tags ''second''))" for c
    by (simp add: scan_handler_def m2 t2 choose_scan_def initial_tags_def request_filename_def
          request_scanMethod_def scan_identifier_def hq bp plain_call_def
          plain_tags_def demo_platform_def filepath_Ext_def filepath_Base_def Let_def
          RFC3339_def)
  have differ: "tagged_body \<noteq> untagged_body"
    by (simp add: tagged_body_def untagged_body_def)
  have built: "snd (NewS3ClientReader demo_s3 [] [] ''us-east-1'' ''bucket'' ''hello.txt'')
      = Inr demo_reader"
    by (simp add: NewS3ClientReader_def load_config_def demo_s3_def demo_reader_def)
  have s3a: "fst (handleScanS3Object demo_s3_platform c (post [] tagged_body))
       = [ScanReaderCall c demo_reader [''team=a'', ''env=dev'', ''source:s3'']]" for c
    by (simp add: handleScanS3Object_def demo_s3_platform_def built demo_scan_request_def
          s3_scan_tags_def post_def)
  have s3b: "fst (handleScanS3Object demo_s3_platform c (post [] untagged_body))
       = [ScanReaderCall c demo_reader [''source:s3'']]" for c
    using differ
    by (simp add: handleScanS3Object_def demo_s3_platform_def built demo_scan_request_def
          s3_scan_tags_def post_def)
  have run1: "serve demo_platform demo_s3_platform fresh_client [''team=a''] leaking_run
       = (leaked_client,
          [Scan first_call,
           ReaderScan (ScanReaderCall leaked_client demo_reader [''team=a'', ''env=dev'', ''source:s3'']),
           Scan (plain_call leaked_client)])"
    using s3a[of leaked_client]
    by (auto simp: leaking_run_def first plain split: prod.splits)
  have run2: "serve demo_platform demo_s3_platform all_enabled_client [''team=a''] quiet_run
       = (all_enabled_client,
          [Scan (plain_call all_enabled_client),
           ReaderScan (ScanReaderCall all_enabled_client demo_reader [''source:s3''])])"
    using s3b[of all_enabled_client]
    by (auto simp: quiet_run_def plain split: prod.splits)
  have r1: "serve demo_platform demo_s3_platform fresh_client [''team=a'']
              ((''/scan'', all_options_request) # tl leaking_run)
       = (leaked_client,
          [Scan first_call,
           ReaderScan (ScanReaderCall leaked_client demo_reader [''team=a'', ''env=dev'', ''source:s3'']),
           Scan (plain_call leaked_client)])"
    using run1 by (simp add: leaking_run_def)
  have r2: "serve demo_platform demo_s3_platform all_enabled_client [''team=a'']
              ((''/scan'', plain_request) # tl quiet_run)
       = (all_enabled_client,
          [Scan (plain_call all_enabled_client),
           ReaderScan (ScanReaderCall all_enabled_client demo_reader [''source:s3''])])"
    using run2 by (simp add: quiet_run_def)
  have seen: "\<exists>call \<in> set (snd (serve demo_platform demo_s3_platform fresh_client [''team=a'']
                  ((''/scan'', all_options_request) # tl leaking_run))).
                leaked_client = backend_client call"
    unfolding r1 by simp
  have leaked: "pml leaked_client \<and> feedback leaked_client \<and> verbose leaked_client
      \<and> activeContent leaked_client \<and> \<not> digest leaked_client"
    using toggles_never_reset [OF m1 disjI2, OF seen] hs by blast
  have last: "all_enabled_client = fst (serve demo_platform demo_s3_platform all_enabled_client
                  [''team=a''] ((''/scan'', plain_request) # tl quiet_run))"
    unfolding r2 by simp
  have kept: "never_reset all_enabled_client all_enabled_client"
    using toggles_never_reset [OF m2 disjI1, OF last] by blast
  have on: "pml all_enabled_client" "feedback all_enabled_client" "verbose all_enabled_client"
    "activeContent all_enabled_client" "digest all_enabled_client"
    by (simp_all add: all_enabled_client_def)
  have heads: "hd leaking_run = (''/scan'', all_options_request)"
    "hd quiet_run = (''/scan'', plain_request)"
    by (simp_all add: leaking_run_def quiet_run_def)
  show ?thesis
    using m1 m2 ha hs heads run1 run2 leaked kept on by simp
qed

section \<open>Startup: verified properties\<close>

text \<open>
  C3. Whenever the external scanner address is not empty, the backend is resolved in
  External mode, whatever the API key is: the one SDK constructor called is
  \<open>NewClientInternal\<close> on that address, the log names the External mode and not the SaaS
  mode, and the server is started with the client that constructor returned and the
  address as endpoint (a constructor error is fatal; there is no fallback to Cloud).
  The Cloud constructor \<open>NewClient\<close> is called only when the external address is empty.
\<close>

theorem external_address_wins:
  "(Getenv w ''SCANNER_EXTERNAL_ADDR'' \<noteq> [] \<longrightarrow>
      sdk_calls (resolve_backend w) =
        [NewClientInternalCall [] (Getenv w ''SCANNER_EXTERNAL_ADDR'')
           (Getenv w ''SCANNER_USE_TLS'' = ''true'') []]
      \<and> ''- Mode: External Scanner (gRPC)'' \<in> set (log_lines (resolve_backend w))
      \<and> ''- Mode: SaaS SDK Scanner'' \<notin> set (log_lines (resolve_backend w))
      \<and> outcome (resolve_backend w) =
          (case Construct w (NewClientInternalCall [] (Getenv w ''SCANNER_EXTERNAL_ADDR'')
                               (Getenv w ''SCANNER_USE_TLS'' = ''true'') []) of
             Inl err \<Rightarrow> Fatal (''Failed to create external scanner client: '' @ Error_string err)
           | Inr client \<Rightarrow>
               StartHTTPServer client (getCustomTags w) (Getenv w ''SCANNER_EXTERNAL_ADDR'')))
   \<and> (NewClientCall apiKey region \<in> set (sdk_calls (resolve_backend w)) \<longrightarrow>
        Getenv w ''SCANNER_EXTERNAL_ADDR'' = [])"
  by (auto simp: resolve_backend_def Let_def split: sum.splits)

theorem external_address_wins_witness:
  "Getenv both_configured ''SCANNER_EXTERNAL_ADDR'' \<noteq> []
   \<and> Getenv both_configured ''FSS_API_KEY'' \<noteq> []
   \<and> sdk_calls (resolve_backend both_configured)
       = [NewClientInternalCall [] ''10.10.21.201:50051'' False []]
   \<and> outcome (resolve_backend both_configured)
       = StartHTTPServer fresh_client [] ''10.10.21.201:50051''
   \<and> NewClientCall ''test-key-here'' ''us-1'' \<in> set (sdk_calls (resolve_backend cloud_only))
   \<and> Getenv cloud_only ''SCANNER_EXTERNAL_ADDR'' = []"
proof -
  have addr: "Getenv both_configured ''SCANNER_EXTERNAL_ADDR'' \<noteq> []"
    by (simp add: both_configured_def world_of_def)
  have k: "Getenv both_configured ''FSS_API_KEY'' \<noteq> []"
    by (simp add: both_configured_def world_of_def)
  have cloud: "NewClientCall ''test-key-here'' ''us-1'' \<in> set (sdk_calls (resolve_backend cloud_only))"
    by (simp add: cloud_only_def world_of_def resolve_backend_def getEnv_def getCustomTags_def Let_def)
  have vals: "Getenv both_configured ''SCANNER_EXTERNAL_ADDR'' = ''10.10.21.201:50051''"
    "(Getenv both_configured ''SCANNER_USE_TLS'' = ''true'') = False"
    "getCustomTags both_configured = []"
    "Construct both_configured (NewClientInternalCall [] ''10.10.21.201:50051'' False []) = Inr fresh_client"
    by (simp_all add: both_configured_def world_of_def getCustomTags_def)
  have ext: "sdk_calls (resolve_backend both_configured)
               = [NewClientInternalCall [] ''10.10.21.201:50051'' False []]
             \<and> outcome (resolve_backend both_configured)
               = StartHTTPServer fresh_client [] ''10.10.21.201:50051''"
    using external_address_wins [where w = both_configured] addr by (simp add: vals)
  have empty: "Getenv cloud_only ''SCANNER_EXTERNAL_ADDR'' = []"
    using external_address_wins [where w = cloud_only and apiKey = "''test-key-here''"
        and region = "''us-1''"] cloud by blast
  show ?thesis
    using addr k cloud empty ext by simp
qed

text \<open>
  C7. With no external address and no API key the startup ends in \<open>log.Fatal\<close>: no SDK
  constructor is called (no session, no retry, no fallback) and \<open>startHTTPServer\<close> is
  not reached. The message is the one about \<open>FSS_API_KEY\<close>, unless the log file already
  failed to open, which is fatal earlier.
\<close>

theorem missing_api_key_is_fatal:
  assumes "Getenv w ''SCANNER_EXTERNAL_ADDR'' = []"
      and "Getenv w ''FSS_API_KEY'' = []"
  shows "sdk_calls (main w) = []
         \<and> outcome (main w) =
             Fatal (case OpenLogFile w of
                      Some err \<Rightarrow> ''Error opening log file: '' @ Error_string err
                    | None \<Rightarrow> ''FSS_API_KEY must be set when not using external scanner'')
         \<and> outcome (main w) \<noteq> StartHTTPServer client customTags endpoint
         \<and> main (w\<lparr>Construct := other\<rparr>) = main w"
  using assms by (simp add: main_def resolve_backend_def Let_def split: option.splits)

theorem missing_api_key_is_fatal_witness:
  "Getenv nothing_configured ''SCANNER_EXTERNAL_ADDR'' = []
   \<and> Getenv nothing_configured ''FSS_API_KEY'' = []
   \<and> sdk_calls (main nothing_configured) = []
   \<and> outcome (main nothing_configured) =
       Fatal ''FSS_API_KEY must be set when not using external scanner''"
proof -
  have a: "Getenv nothing_configured ''SCANNER_EXTERNAL_ADDR'' = []"
    by (simp add: nothing_configured_def world_of_def)
  have k: "Getenv nothing_configured ''FSS_API_KEY'' = []"
    by (simp add: nothing_configured_def world_of_def)
  have l: "OpenLogFile nothing_configured = None"
    by (simp add: nothing_configured_def world_of_def)
  show ?thesis
    using missing_api_key_is_fatal [OF a k] a k by (simp add: l)
qed

section \<open>S3 reader: verified properties\<close>

lemma ReadBytes_sent:
  "ReadBytes api r offset len = (sent, res) \<Longrightarrow>
     sent = [GetObjectCall (bucket_r r) (key_r r) (byte_range offset len)]"
  by (auto simp: ReadBytes_def Let_def split: sum.splits prod.splits option.splits if_splits)

lemma DataSize_in_calls:
  "(sent, res) \<in> set (reader_calls r ops) \<Longrightarrow>
     (res = GotDataSize n e \<longrightarrow> n = size_r r \<and> e = None) \<and>
     GetObjectAttributesCall b k \<notin> set sent"
proof (induction ops)
  case Nil
  then show ?case by simp
next
  case (Cons step ops)
  obtain api op where step: "step = (api, op)" by (cases step)
  have one: "(sent, res) = reader_call api r op \<Longrightarrow> ?case"
    by (cases op) (auto simp: DataSize_def split: prod.splits dest: ReadBytes_sent)
  show ?case
    using Cons step one by auto
qed

text \<open>
  C5. For every offset and length, \<open>ReadBytes\<close> sends exactly one request to the store,
  a \<open>GetObject\<close> for the byte range from the offset to offset + length - 1, and does not
  look at the cached size (the call is the same for every value of the size field). When
  the store answers and the body is read without error, the bytes are returned with a
  nil error however few they are. An error is returned only when the fetch failed (the
  same error) or the reading of the body failed (that error, wrapped with its text after
  \<open>error reading S3 object body: \<close>, or \<open>io.EOF\<close> as it is).
\<close>

theorem ReadBytes_single_fetch:
  "fst (ReadBytes api r offset len) =
     [GetObjectCall (bucket_r r) (key_r r) (byte_range offset len)]
   \<and> ReadBytes api (r\<lparr>size_r := n\<rparr>) offset len = ReadBytes api r offset len
   \<and> (GetObject api (client_r r) (bucket_r r) (key_r r) (byte_range offset len) = Inr (bytes, None)
        \<longrightarrow> snd (ReadBytes api r offset len) = (bytes, None))
   \<and> (snd (snd (ReadBytes api r offset len)) = Some e \<longrightarrow>
        GetObject api (client_r r) (bucket_r r) (key_r r) (byte_range offset len) = Inl e
        \<or> (\<exists>got cause.
              GetObject api (client_r r) (bucket_r r) (key_r r) (byte_range offset len)
                = Inr (got, Some cause)
              \<and> (if cause = EOF then e = EOF
                  else e = Err (''error reading S3 object body: '' @ Error_string cause))))"
  by (auto simp: ReadBytes_def Let_def split: sum.splits prod.splits option.splits if_splits)

theorem ReadBytes_single_fetch_witness:
  "size_r demo_reader = 11
   \<and> byte_range 6 10 = ''bytes=6-15''
   \<and> GetObject demo_s3 (client_r demo_reader) (bucket_r demo_reader) (key_r demo_reader)
        (byte_range 6 10) = Inr (''world'', None)
   \<and> ReadBytes demo_s3 demo_reader 6 10
       = ([GetObjectCall ''bucket'' ''hello.txt'' ''bytes=6-15''], (''world'', None))
   \<and> snd (snd (ReadBytes demo_s3 demo_reader 100 10)) = Some (Err ''InvalidRange'')
   \<and> GetObject demo_s3 (client_r demo_reader) (bucket_r demo_reader) (key_r demo_reader)
        (byte_range 100 10) = Inl (Err ''InvalidRange'')"
proof -
  have rng: "byte_range 6 10 = ''bytes=6-15''"
    by (simp add: byte_range_def fmt_d_def decimal.simps digit_char_def)
  have rng': "byte_range 100 10 = ''bytes=100-109''"
    by (simp add: byte_range_def fmt_d_def decimal.simps digit_char_def)
  have got: "GetObject demo_s3 (client_r demo_reader) (bucket_r demo_reader) (key_r demo_reader)
        (byte_range 6 10) = Inr (''world'', None)"
    by (simp add: rng demo_s3_def demo_reader_def demo_object_def)
  have failed: "snd (snd (ReadBytes demo_s3 demo_reader 100 10)) = Some (Err ''InvalidRange'')"
    by (simp add: ReadBytes_def rng' demo_s3_def demo_reader_def)
  note fetch = ReadBytes_single_fetch [where api = demo_s3 and r = demo_reader]
  have sent: "fst (ReadBytes demo_s3 demo_reader 6 10)
                = [GetObjectCall ''bucket'' ''hello.txt'' ''bytes=6-15'']"
    using fetch [where offset = 6 and len = 10] by (simp add: rng demo_reader_def)
  have res: "snd (ReadBytes demo_s3 demo_reader 6 10) = (''world'', None)"
    using fetch [where offset = 6 and len = 10 and bytes = "''world''"] got by blast
  have cause: "GetObject demo_s3 (client_r demo_reader) (bucket_r demo_reader) (key_r demo_reader)
        (byte_range 100 10) = Inl (Err ''InvalidRange'')"
    using fetch [where offset = 100 and len = 10 and e = "Err ''InvalidRange''"] failed
    by (auto simp: rng' demo_s3_def demo_reader_def)
  show ?thesis
    using rng got sent res failed cause
    by (simp add: demo_reader_def prod_eq_iff)
qed

text \<open>
  C6. A reader that \<open>NewS3ClientReader\<close> returns was built with exactly one request to the
  store, the \<open>GetObjectAttributes\<close> for its object, and holds the size that request
  reported. After that, whatever methods are called on it, in whatever order and against
  whatever state of the store, every \<open>DataSize\<close> returns that size with a nil error and no
  method asks the store for the size again. When the store returns an error or no size,
  the constructor returns an error and no reader.
\<close>

theorem size_cached_at_construction:
  "(NewS3ClientReader api awsAccessKey awsSecretKey bucketRegion bucket k = (sent, Inr r) \<longrightarrow>
      sent = [GetObjectAttributesCall bucket k]
      \<and> GetObjectAttributes api (client_r r) bucket k = Inr (Some (size_r r))
      \<and> DataSize r = (size_r r, None)
      \<and> (\<forall>(sent', res) \<in> set (reader_calls r ops).
            (\<forall>n e. res = GotDataSize n e \<longrightarrow> n = size_r r \<and> e = None)
            \<and> (\<forall>b' k'. GetObjectAttributesCall b' k' \<notin> set sent')))
   \<and> (load_config api awsAccessKey awsSecretKey bucketRegion = Inr cfg \<longrightarrow>
      (\<forall>n. GetObjectAttributes api cfg bucket k \<noteq> Inr (Some n)) \<longrightarrow>
      (\<exists>err. snd (NewS3ClientReader api awsAccessKey awsSecretKey bucketRegion bucket k) = Inl err))"
proof -
  have built: "NewS3ClientReader api awsAccessKey awsSecretKey bucketRegion bucket k = (sent, Inr r)
      \<Longrightarrow> sent = [GetObjectAttributesCall bucket k]
          \<and> GetObjectAttributes api (client_r r) bucket k = Inr (Some (size_r r))"
    by (auto simp: NewS3ClientReader_def split: sum.splits option.splits)
  have later: "\<forall>(sent', res) \<in> set (reader_calls r ops).
            (\<forall>n e. res = GotDataSize n e \<longrightarrow> n = size_r r \<and> e = None)
            \<and> (\<forall>b' k'. GetObjectAttributesCall b' k' \<notin> set sent')"
    using DataSize_in_calls[of _ _ r ops] by blast
  have refused: "load_config api awsAccessKey awsSecretKey bucketRegion = Inr cfg \<Longrightarrow>
      (\<forall>n. GetObjectAttributes api cfg bucket k \<noteq> Inr (Some n)) \<Longrightarrow>
      (\<exists>err. snd (NewS3ClientReader api awsAccessKey awsSecretKey bucketRegion bucket k) = Inl err)"
    by (auto simp: NewS3ClientReader_def split: sum.splits option.splits)
  show ?thesis
    using built later refused by (simp add: DataSize_def)
qed

theorem size_cached_at_construction_witness:
  "NewS3ClientReader demo_s3 [] [] ''us-east-1'' ''bucket'' ''hello.txt''
     = ([GetObjectAttributesCall ''bucket'' ''hello.txt''], Inr demo_reader)
   \<and> GetObjectAttributes grown_s3 ''us-east-1'' ''bucket'' ''hello.txt'' = Inr (Some 20)
   \<and> reader_calls demo_reader
         [(demo_s3, OpDataSize), (grown_s3, OpReadBytes 0 4), (grown_s3, OpDataSize)]
       = [([], GotDataSize 11 None),
          ([GetObjectCall ''bucket'' ''hello.txt'' ''bytes=0-3''], GotBytes ''hell'' None),
          ([], GotDataSize 11 None)]
   \<and> DataSize demo_reader = (11, None)
   \<and> load_config demo_s3 [] [] ''us-east-1'' = Inr ''us-east-1''
   \<and> GetObjectAttributes demo_s3 ''us-east-1'' ''bucket'' ''nosize'' = Inr None
   \<and> snd (NewS3ClientReader demo_s3 [] [] ''us-east-1'' ''bucket'' ''nosize'')
       = Inl (Err ''unable to get object size from S3'')"
proof -
  have built: "NewS3ClientReader demo_s3 [] [] ''us-east-1'' ''bucket'' ''hello.txt''
     = ([GetObjectAttributesCall ''bucket'' ''hello.txt''], Inr demo_reader)"
    by (simp add: NewS3ClientReader_def load_config_def demo_s3_def demo_reader_def)
  have grown: "GetObjectAttributes grown_s3 ''us-east-1'' ''bucket'' ''hello.txt'' = Inr (Some 20)"
    by (simp add: grown_s3_def)
  have rng: "byte_range 0 4 = ''bytes=0-3''"
    by (simp add: byte_range_def fmt_d_def decimal.simps digit_char_def)
  have calls: "reader_calls demo_reader
         [(demo_s3, OpDataSize), (grown_s3, OpReadBytes 0 4), (grown_s3, OpDataSize)]
       = [([], GotDataSize 11 None),
          ([GetObjectCall ''bucket'' ''hello.txt'' ''bytes=0-3''], GotBytes ''hell'' None),
          ([], GotDataSize 11 None)]"
    by (simp add: DataSize_def ReadBytes_def rng grown_s3_def demo_s3_def demo_reader_def
          demo_object_def)
  have cfg: "load_config demo_s3 [] [] ''us-east-1'' = Inr ''us-east-1''"
    by (simp add: load_config_def demo_s3_def)
  have nosize: "GetObjectAttributes demo_s3 ''us-east-1'' ''bucket'' ''nosize'' = Inr None"
    by (simp add: demo_s3_def)
  have none: "\<forall>n. GetObjectAttributes demo_s3 ''us-east-1'' ''bucket'' ''nosize'' \<noteq> Inr (Some n)"
    by (simp add: nosize)
  have cached: "DataSize demo_reader = (size_r demo_reader, None)"
    using size_cached_at_construction
      [where api = demo_s3 and awsAccessKey = "[]" and awsSecretKey = "[]"
         and bucketRegion = "''us-east-1''" and bucket = "''bucket''" and k = "''hello.txt''"
         and r = demo_reader and sent = "[GetObjectAttributesCall ''bucket'' ''hello.txt'']"]
      built by blast
  have refused: "\<exists>err. snd (NewS3ClientReader demo_s3 [] [] ''us-east-1'' ''bucket'' ''nosize'') = Inl err"
    using size_cached_at_construction
      [where api = demo_s3 and awsAccessKey = "[]" and awsSecretKey = "[]"
         and bucketRegion = "''us-east-1''" and bucket = "''bucket''" and k = "''nosize''"
         and cfg = "''us-east-1''"]
      cfg none by blast
  have message: "snd (NewS3ClientReader demo_s3 [] [] ''us-east-1'' ''bucket'' ''nosize'')
       = Inl (Err ''unable to get object size from S3'')"
    using refused by (simp add: NewS3ClientReader_def cfg nosize)
  have eleven: "size_r demo_reader = 11"
    by (simp add: demo_reader_def)
  show ?thesis
    using built grown calls cached cfg nosize message by (simp add: eleven)
qed

section \<open>S3 scan endpoint: verified properties\<close>



end
